theory Spec2Isabelle
  imports Main
begin

section \<open>JavaScript values used by the collection\<close>

text \<open>
  Numbers are modelled as integers together with \<open>NaN\<close>: offsets, limits, page
  numbers and ids are integral in every operation of the model.  \<open>JRef\<close> is an
  opaque object reference, compared by identity, with no attributes of its own.
\<close>

datatype jsnum = Fin int | NaN

datatype jsval = JUndef | JNull | JBool bool | JNum jsnum | JStr string | JRef nat

datatype error = Throw string | TypeError

text \<open>Truthiness, as tested by \<open>if (v)\<close>, \<open>!v\<close> and \<open>a || b\<close>.\<close>

fun truthy :: "jsval \<Rightarrow> bool" where
  "truthy JUndef = False"
| "truthy JNull = False"
| "truthy (JBool b) = b"
| "truthy (JNum (Fin n)) = (n \<noteq> 0)"
| "truthy (JNum NaN) = False"
| "truthy (JStr s) = (s \<noteq> [])"
| "truthy (JRef _) = True"

definition js_or :: "jsval \<Rightarrow> jsval \<Rightarrow> jsval" where
  "js_or a b = (if truthy a then a else b)"

subsection \<open>Decimal rendering and parsing\<close>

definition digit_char :: "nat \<Rightarrow> char" where
  "digit_char d = char_of (48 + d)"

function show_nat :: "nat \<Rightarrow> string" where
  "show_nat n = (if n < 10 then [digit_char n] else show_nat (n div 10) @ [digit_char (n mod 10)])"
  by pat_completeness auto
termination
  by (relation "measure id") auto

declare show_nat.simps [simp del]

definition show_int :: "int \<Rightarrow> string" where
  "show_int i = (if i < 0 then CHR ''-'' # show_nat (nat (- i)) else show_nat (nat i))"

definition is_digit :: "char \<Rightarrow> bool" where
  "is_digit c = (48 \<le> (of_char c :: nat) \<and> (of_char c :: nat) \<le> 57)"

definition is_space :: "char \<Rightarrow> bool" where
  "is_space c = ((of_char c :: nat) \<in> {9, 10, 11, 12, 13, 32})"

definition digit_val :: "char \<Rightarrow> nat" where
  "digit_val c = (of_char c :: nat) - 48"


definition digits_val :: "string \<Rightarrow> nat" where
  "digits_val ds = foldl (\<lambda>acc c. 10 * acc + digit_val c) 0 ds"


definition trim :: "string \<Rightarrow> string" where
  "trim s = rev (dropWhile is_space (rev (dropWhile is_space s)))"

text \<open>Splits an optional sign off the front of a string.\<close>

fun split_sign :: "string \<Rightarrow> bool \<times> string" where
  "split_sign [] = (False, [])"
| "split_sign (c # cs) =
     (if c = CHR ''-'' then (True, cs) else if c = CHR ''+'' then (False, cs) else (False, c # cs))"

definition signed :: "bool \<Rightarrow> nat \<Rightarrow> jsnum" where
  "signed neg n = Fin (if neg then - int n else int n)"

text \<open>
  \<open>ToString\<close>.  An object reference renders as a plain object does.
\<close>

fun to_string :: "jsval \<Rightarrow> string" where
  "to_string JUndef = ''undefined''"
| "to_string JNull = ''null''"
| "to_string (JBool b) = (if b then ''true'' else ''false'')"
| "to_string (JNum (Fin n)) = show_int n"
| "to_string (JNum NaN) = ''NaN''"
| "to_string (JStr s) = s"
| "to_string (JRef _) = ''[object Object]''"

text \<open>
  \<open>ToNumber\<close> on a string, for the integer fragment: surrounding white space is
  dropped, the empty string is 0, an optionally signed run of decimal digits is its
  value, and every other string is \<open>NaN\<close>.
\<close>

definition str_to_num :: "string \<Rightarrow> jsnum" where
  "str_to_num s = (let t = trim s in
     if t = [] then Fin 0
     else (case split_sign t of (neg, ds) \<Rightarrow>
       if ds \<noteq> [] \<and> list_all is_digit ds then signed neg (digits_val ds) else NaN))"

fun to_number :: "jsval \<Rightarrow> jsnum" where
  "to_number JUndef = NaN"
| "to_number JNull = Fin 0"
| "to_number (JBool b) = Fin (if b then 1 else 0)"
| "to_number (JNum n) = n"
| "to_number (JStr s) = str_to_num s"
| "to_number (JRef _) = NaN"




fun num_add :: "jsnum \<Rightarrow> jsnum \<Rightarrow> jsnum" where
  "num_add (Fin a) (Fin b) = Fin (a + b)"
| "num_add _ _ = NaN"

fun num_sub :: "jsnum \<Rightarrow> jsnum \<Rightarrow> jsnum" where
  "num_sub (Fin a) (Fin b) = Fin (a - b)"
| "num_sub _ _ = NaN"

fun num_mul :: "jsnum \<Rightarrow> jsnum \<Rightarrow> jsnum" where
  "num_mul (Fin a) (Fin b) = Fin (a * b)"
| "num_mul _ _ = NaN"

text \<open>Unary plus.\<close>

definition js_plus :: "jsval \<Rightarrow> jsval" where
  "js_plus v = JNum (to_number v)"

text \<open>
  Binary \<open>+\<close>: string concatenation as soon as one operand is a string (an object
  reference converts to a string first), numeric addition otherwise.
\<close>

fun stringish :: "jsval \<Rightarrow> bool" where
  "stringish (JStr _) = True"
| "stringish (JRef _) = True"
| "stringish _ = False"

definition js_add :: "jsval \<Rightarrow> jsval \<Rightarrow> jsval" where
  "js_add a b = (if stringish a \<or> stringish b then JStr (to_string a @ to_string b)
                 else JNum (num_add (to_number a) (to_number b)))"

definition js_sub :: "jsval \<Rightarrow> jsval \<Rightarrow> jsval" where
  "js_sub a b = JNum (num_sub (to_number a) (to_number b))"

definition js_mul :: "jsval \<Rightarrow> jsval \<Rightarrow> jsval" where
  "js_mul a b = JNum (num_mul (to_number a) (to_number b))"

section \<open>Objects as ordered property lists\<close>

text \<open>
  A plain object is the list of its own enumerable properties in enumeration order.
  Assigning to an existing key keeps its place, assigning to a new key appends it,
  \<open>delete\<close> removes it.
\<close>

type_synonym 'v props = "(string \<times> 'v) list"

definition has_prop :: "string \<Rightarrow> 'v props \<Rightarrow> bool" where
  "has_prop k ps = (map_of ps k \<noteq> None)"

fun set_prop :: "string \<Rightarrow> 'v \<Rightarrow> 'v props \<Rightarrow> 'v props" where
  "set_prop k v [] = [(k, v)]"
| "set_prop k v (p # ps) = (if fst p = k then (k, v) # ps else p # set_prop k v ps)"

definition del_prop :: "string \<Rightarrow> 'v props \<Rightarrow> 'v props" where
  "del_prop k ps = filter (\<lambda>p. fst p \<noteq> k) ps"

text \<open>Reading a property of a plain object of scalars: \<open>undefined\<close> when absent.\<close>

definition get_prop :: "string \<Rightarrow> jsval props \<Rightarrow> jsval" where
  "get_prop k ps = (case map_of ps k of None \<Rightarrow> JUndef | Some v \<Rightarrow> v)"

text \<open>
  \<open>$.extend(target, src)\<close> on plain objects of scalars: every property of \<open>src\<close> whose
  value is not \<open>undefined\<close> is assigned to the target.  \<open>copy\<close> is \<open>$.extend({}, a)\<close>
  and \<open>jq_extend\<close> is \<open>$.extend({}, a, b)\<close>.
\<close>

definition extend_into :: "jsval props \<Rightarrow> jsval props \<Rightarrow> jsval props" where
  "extend_into t src =
     foldl (\<lambda>acc p. if snd p = JUndef then acc else set_prop (fst p) (snd p) acc) t src"

definition copy :: "jsval props \<Rightarrow> jsval props" where
  "copy ps = extend_into [] ps"

definition jq_extend :: "jsval props \<Rightarrow> jsval props \<Rightarrow> jsval props" where
  "jq_extend a b = extend_into (extend_into [] a) b"

section \<open>Query strings and URLs\<close>

definition hex_char :: "nat \<Rightarrow> char" where
  "hex_char d = (if d < 10 then char_of (48 + d) else char_of (55 + d))"

definition unreserved :: "char \<Rightarrow> bool" where
  "unreserved c = (let k = (of_char c :: nat) in
     (48 \<le> k \<and> k \<le> 57) \<or> (65 \<le> k \<and> k \<le> 90) \<or> (97 \<le> k \<and> k \<le> 122) \<or>
     c \<in> set ''-_.!~*'()'')"

text \<open>\<open>encodeURIComponent\<close> on a string of UTF-8 bytes.\<close>

definition encodeURIComponent :: "string \<Rightarrow> string" where
  "encodeURIComponent s = concat (map (\<lambda>c.
     if unreserved c then [c]
     else [CHR ''%'', hex_char ((of_char c :: nat) div 16), hex_char ((of_char c :: nat) mod 16)]) s)"

text \<open>
  The loop shared by \<open>api().get\<close> and \<open>url\<close>: every own property whose value is not
  \<open>null\<close> contributes \<open>key=value\<close>; the first is introduced by \<open>?\<close>, the others by
  \<open>&\<close>.
\<close>

fun query_loop :: "string \<Rightarrow> jsval props \<Rightarrow> string" where
  "query_loop q [] = q"
| "query_loop q ((k, v) # ps) =
     (if v \<noteq> JNull then
        (if q = [] then
           query_loop (''?'' @ encodeURIComponent k @ ''='' @ encodeURIComponent (to_string v)) ps
         else
           query_loop (q @ ''&'' @ encodeURIComponent k @ ''='' @ encodeURIComponent (to_string v)) ps)
      else query_loop q ps)"

text \<open>
  The \<open>params\<close> argument of \<open>api().get\<close> and \<open>url\<close>: omitted, a plain object, or
  any other value.
\<close>

datatype qarg = QUndef | QObj "jsval props" | QVal jsval

text \<open>\<open>endpoint.replace(/\/+$/, '')\<close>.\<close>

definition strip_slashes :: "string \<Rightarrow> string" where
  "strip_slashes s = rev (dropWhile (\<lambda>c. c = CHR ''/'') (rev s))"

fun build_query :: "qarg \<Rightarrow> jsval \<Rightarrow> jsval" where
  "build_query a seg =
     (let q = (case a of
                 QObj ps \<Rightarrow> JStr (query_loop [] ps)
               | QVal v \<Rightarrow> (if truthy v then v else JStr [])
               | QUndef \<Rightarrow> JStr [])
      in if truthy seg then js_add (js_add seg (JStr ''/'')) q else q)"

section \<open>The collection instance\<close>

text \<open>
  What an own property of the instance can hold: a scalar, a result object (its own
  attributes), a request handle returned by \<open>$.ajax\<close> (an index into the list of
  requests issued so far), or the fresh \<open>$.Deferred()\<close> of the constructor.
\<close>

datatype slot = Val jsval | Rec "jsval props" | Xhr nat | Dfd

datatype status = Pending | Aborted | Succeeded | Failed

record request =
  r_method :: string
  r_url :: string
  r_data :: "jsval option"
  r_status :: status
  r_refresh :: bool

text \<open>
  \<open>items\<close> are the index-keyed own properties \<open>0, 1, \<dots>\<close> written by \<open>push\<close>;
  \<open>named\<close> are the other own enumerable properties (\<open>length\<close>, \<open>_init_ajax\<close>,
  \<open>_init\<close>, \<open>_last_request\<close>) in creation order.  A \<open>for \<dots> in\<close> loop visits the
  index keys in ascending order first and the named keys after them.
  \<open>proto_last_request\<close> is the value of \<open>_last_request\<close> found on the prototype chain
  (\<open>false\<close> unless the collection class overrides it).  \<open>s_endpoint\<close>, \<open>s_params\<close>,
  \<open>s_attribute\<close> and \<open>s_init\<close> are the fields of \<open>settings\<close>; \<open>net\<close> is the list of
  requests handed to \<open>$.ajax\<close>.
\<close>

record model =
  items :: "slot list"
  named :: "slot props"
  proto_last_request :: slot
  s_endpoint :: jsval
  s_params :: "jsval props"
  s_attribute :: string
  s_init :: jsval
  net :: "request list"

text \<open>The own enumerable properties in \<open>for \<dots> in\<close> order.\<close>

definition own_values :: "model \<Rightarrow> slot list" where
  "own_values m = items m @ map snd (named m)"

text \<open>Reading \<open>this.k\<close> for a named key: the own property, else the prototype's.\<close>

definition last_request :: "model \<Rightarrow> slot" where
  "last_request m = (case map_of (named m) ''_last_request'' of
                       Some v \<Rightarrow> v | None \<Rightarrow> proto_last_request m)"

definition init_ajax :: "model \<Rightarrow> slot" where
  "init_ajax m = (case map_of (named m) ''_init_ajax'' of
                    Some v \<Rightarrow> v | None \<Rightarrow> Val JUndef)"

fun slot_truthy :: "slot \<Rightarrow> bool" where
  "slot_truthy (Val v) = truthy v"
| "slot_truthy _ = True"

section \<open>The request controller\<close>

text \<open>
  \<open>lq.abort()\<close> on a request handle: a pending request becomes aborted, a settled
  one is left as it is.
\<close>

definition abort :: "nat \<Rightarrow> request list \<Rightarrow> request list" where
  "abort i rs = (if i < length rs \<and> r_status (rs ! i) = Pending
                 then rs[i := (rs ! i)\<lparr>r_status := Aborted\<rparr>] else rs)"

text \<open>
  The \<open>beforeSend\<close> hook installed when \<open>_last_request\<close> is not \<open>false\<close>: \<open>null\<close>
  and \<open>true\<close> are skipped, a request handle is aborted, and any other value has no
  callable \<open>abort\<close>.
\<close>

fun beforeSend :: "slot \<Rightarrow> request list \<Rightarrow> error + request list" where
  "beforeSend (Val JNull) rs = Inr rs"
| "beforeSend (Val (JBool True)) rs = Inr rs"
| "beforeSend (Xhr i) rs = Inr (abort i rs)"
| "beforeSend _ rs = Inl TypeError"

text \<open>
  A method either throws, leaving the instance as it is at the throw, or returns a
  value and the updated instance.
\<close>

datatype 'a result = Thrown error model | Returned 'a model

text \<open>
  \<open>_make_request(method, endpoint, data)\<close> returns the handle of the new request.
  \<open>$.ajax\<close> runs \<open>beforeSend\<close> and then appends the request to \<open>net\<close>.
\<close>

definition make_request :: "model \<Rightarrow> string \<Rightarrow> jsval \<Rightarrow> jsval \<Rightarrow> nat result" where
  "make_request m meth ep dat =
     (if \<not> truthy (s_endpoint m) then
        Thrown (Throw ''Error: The API Toolset has not been setup correctly.'') m
      else (case s_endpoint m of
        JStr e \<Rightarrow>
          (let req = \<lparr> r_method = meth,
                       r_url = strip_slashes e @ ''/'' @ to_string ep,
                       r_data = (if meth \<noteq> ''get'' \<and> truthy dat then Some dat else None),
                       r_status = Pending,
                       r_refresh = False \<rparr>
           in if last_request m \<noteq> Val (JBool False) then
                (case beforeSend (last_request m) (net m) of
                   Inl e \<Rightarrow> Thrown e m
                 | Inr rs \<Rightarrow>
                     Returned (length rs)
                       (m\<lparr> net := rs @ [req],
                           named := set_prop ''_last_request'' (Xhr (length rs)) (named m) \<rparr>))
              else Returned (length (net m)) (m\<lparr> net := net m @ [req] \<rparr>))
      | _ \<Rightarrow> Thrown TypeError m))"

text \<open>The four verbs returned by \<open>api()\<close>.\<close>

definition api_get :: "model \<Rightarrow> qarg \<Rightarrow> jsval \<Rightarrow> nat result" where
  "api_get m a seg = make_request m ''get'' (build_query a seg) JUndef"

definition api_put :: "model \<Rightarrow> jsval \<Rightarrow> jsval \<Rightarrow> nat result" where
  "api_put m dat ep = make_request m ''put'' ep dat"

definition api_post :: "model \<Rightarrow> jsval \<Rightarrow> jsval \<Rightarrow> nat result" where
  "api_post m dat ep = make_request m ''post'' ep dat"

definition api_delete :: "model \<Rightarrow> jsval \<Rightarrow> jsval \<Rightarrow> nat result" where
  "api_delete m dat ps = make_request m ''delete'' ps JUndef"

section \<open>Building the store\<close>

text \<open>
  \<open>new CD_Result(properties)\<close>: the own properties of an object payload are copied;
  any other payload gives a result with no attributes.
\<close>

fun CD_Result :: "slot \<Rightarrow> slot" where
  "CD_Result (Rec attrs) = Rec attrs"
| "CD_Result _ = Rec []"

text \<open>
  \<open>this.push(x)\<close>, inherited from the array library: the value is stored under the
  next index and the own property \<open>length\<close> is updated.
\<close>

definition push :: "slot \<Rightarrow> model \<Rightarrow> model" where
  "push x m = m\<lparr> items := items m @ [x],
                 named := set_prop ''length'' (Val (JNum (Fin (int (length (items m)) + 1)))) (named m) \<rparr>"

text \<open>
  \<open>CD_Model.call(mc, properties)\<close>.  \<open>None\<close> stands for a value that is not an
  object; an object is the list of its own properties, each one a record payload.
\<close>

fun CD_Model :: "model \<Rightarrow> slot props option \<Rightarrow> model" where
  "CD_Model m None = m"
| "CD_Model m (Some ps) = foldl (\<lambda>acc p. push (CD_Result (snd p)) acc) m ps"

text \<open>
  A decoded response: the fields that hold an object of record payloads, by name.
  The \<open>done\<close> callback of every refreshing operation reads
  \<open>response[mc.settings.attribute]\<close>.
\<close>

type_synonym response = "(slot props) props"

datatype outcome = Success response | Failure

definition on_done :: "model \<Rightarrow> response \<Rightarrow> model" where
  "on_done m resp = CD_Model m (map_of resp (s_attribute m))"

text \<open>
  The transport settles request \<open>i\<close>.  Only a pending request can settle; a successful
  one runs its \<open>done\<close> callback when it has one, a failed one runs none.
\<close>

definition settle :: "nat \<Rightarrow> outcome \<Rightarrow> model \<Rightarrow> model" where
  "settle i out m =
     (if i < length (net m) \<and> r_status (net m ! i) = Pending then
        (case out of
           Failure \<Rightarrow> m\<lparr> net := (net m)[i := (net m ! i)\<lparr>r_status := Failed\<rparr>] \<rparr>
         | Success resp \<Rightarrow>
             (let m' = m\<lparr> net := (net m)[i := (net m ! i)\<lparr>r_status := Succeeded\<rparr>] \<rparr>
              in if r_refresh (net m ! i) then on_done m' resp else m'))
      else m)"

text \<open>
  \<open>this.api().get(mc.settings.params).done(function(response){ CD_Model.call(\<dots>) })\<close>,
  the tail shared by every refreshing operation.
\<close>

definition refetch :: "model \<Rightarrow> nat result" where
  "refetch m =
     (case api_get m (QObj (s_params m)) JUndef of
        Thrown e m' \<Rightarrow> Thrown e m'
      | Returned i m' \<Rightarrow>
          Returned i (m'\<lparr> net := (net m')[i := (net m' ! i)\<lparr>r_refresh := True\<rparr>] \<rparr>))"

section \<open>Parameter mutators\<close>

text \<open>What a refreshing operation returns: a request handle, an already rejected
  deferred, or the constructor's unresolved deferred.\<close>

datatype ret = RXhr nat | RRejected string | RDfd

definition as_ret :: "nat result \<Rightarrow> ret result" where
  "as_ret r = (case r of Thrown e m \<Rightarrow> Thrown e m | Returned i m \<Rightarrow> Returned (RXhr i) m)"

definition param :: "model \<Rightarrow> jsval \<Rightarrow> jsval \<Rightarrow> model" where
  "param m k v =
     (if k \<noteq> JUndef \<and> truthy v then m\<lparr> s_params := set_prop (to_string k) v (s_params m) \<rparr>
      else if k \<noteq> JUndef then m\<lparr> s_params := del_prop (to_string k) (s_params m) \<rparr>
      else m)"

definition filter_op :: "model \<Rightarrow> jsval \<Rightarrow> jsval \<Rightarrow> ret result" where
  "filter_op m field v =
     as_ret (refetch
       (if field \<noteq> JUndef \<and> truthy v then
          m\<lparr> s_params := set_prop ''offset'' (JNum (Fin 0)) (set_prop (to_string field) v (s_params m)) \<rparr>
        else if field \<noteq> JUndef then
          m\<lparr> s_params := set_prop ''offset'' (JNum (Fin 0)) (del_prop (to_string field) (s_params m)) \<rparr>
        else m))"

definition sort_op :: "model \<Rightarrow> jsval \<Rightarrow> ret result" where
  "sort_op m v =
     as_ret (refetch
       (if v \<noteq> JUndef then
          m\<lparr> s_params := set_prop ''offset'' (JNum (Fin 0)) (set_prop ''sort'' v (s_params m)) \<rparr>
        else m\<lparr> s_params := del_prop ''sort'' (s_params m) \<rparr>))"

definition search :: "model \<Rightarrow> jsval \<Rightarrow> ret result" where
  "search m v =
     as_ret (refetch
       (if v \<noteq> JUndef then
          m\<lparr> s_params := set_prop ''offset'' (JNum (Fin 0)) (set_prop ''q'' v (s_params m)) \<rparr>
        else m\<lparr> s_params := del_prop ''q'' (s_params m) \<rparr>))"

section \<open>Pagination\<close>

text \<open>
  The statements of \<open>next\<close>, \<open>page\<close> and \<open>prev\<close> up to the offset assignment are the
  same: an explicit \<open>count\<close> overwrites \<open>limit\<close> with \<open>+count\<close>, an absent \<open>offset\<close>
  becomes 0.
\<close>

definition prepare :: "jsval props \<Rightarrow> jsval \<Rightarrow> jsval props" where
  "prepare ps count =
     (let ps1 = (if count \<noteq> JUndef then set_prop ''limit'' (js_plus count) ps else ps)
      in if \<not> has_prop ''offset'' ps1 then set_prop ''offset'' (JNum (Fin 0)) ps1 else ps1)"

definition next_params :: "jsval props \<Rightarrow> jsval \<Rightarrow> jsval props" where
  "next_params ps count =
     (let ps2 = prepare ps count
      in set_prop ''offset'' (js_add (get_prop ''offset'' ps2) (get_prop ''limit'' ps2)) ps2)"

definition page_params :: "jsval props \<Rightarrow> jsval \<Rightarrow> jsval \<Rightarrow> jsval props" where
  "page_params ps pg count =
     (let ps2 = prepare ps count
      in set_prop ''offset'' (js_mul (get_prop ''limit'' ps2) (js_sub pg (JNum (Fin 1)))) ps2)"


definition "next" :: "model \<Rightarrow> jsval \<Rightarrow> ret result" where
  "next m count =
     (if \<not> has_prop ''limit'' (s_params m) then
        Returned (RRejected ''No limit defined in parameters'') m
      else as_ret (refetch (m\<lparr> s_params := next_params (s_params m) count \<rparr>)))"

definition page :: "model \<Rightarrow> jsval \<Rightarrow> jsval \<Rightarrow> ret result" where
  "page m pg count =
     (if \<not> has_prop ''limit'' (s_params m) then
        Returned (RRejected ''No limit defined in parameters'') m
      else as_ret (refetch (m\<lparr> s_params := page_params (s_params m) pg count \<rparr>)))"


section \<open>URL-only variants\<close>

text \<open>\<open>url(params, segments)\<close> reads the instance and returns a string.\<close>

definition url :: "model \<Rightarrow> qarg \<Rightarrow> jsval \<Rightarrow> error + string" where
  "url m a seg =
     (let a' = (if a = QUndef then QObj (copy (s_params m)) else a);
          q = build_query a' seg
      in case s_endpoint m of
           JStr e \<Rightarrow> Inr (strip_slashes e @ ''/'' @ to_string q)
         | _ \<Rightarrow> Inl TypeError)"


definition url_prev_params :: "model \<Rightarrow> jsval \<Rightarrow> jsval props option" where
  "url_prev_params m count =
     (let ps = copy (s_params m); limit = js_or count (get_prop ''limit'' (s_params m))
      in if \<not> truthy limit then None
         else Some (set_prop ''offset'' (js_sub (js_plus (get_prop ''offset'' ps)) limit) ps))"

definition url_page_params :: "model \<Rightarrow> jsval \<Rightarrow> jsval \<Rightarrow> jsval props option" where
  "url_page_params m pg count =
     (let ps = copy (s_params m); limit = js_or count (get_prop ''limit'' (s_params m))
      in if \<not> truthy limit then None
         else Some (set_prop ''offset''
                      (js_mul (get_prop ''limit'' (s_params m)) (js_sub pg (JNum (Fin 1)))) ps))"

definition url_with :: "model \<Rightarrow> jsval props option \<Rightarrow> error + string" where
  "url_with m po = (case po of None \<Rightarrow> url m QUndef JUndef | Some ps \<Rightarrow> url m (QObj ps) JUndef)"


definition url_prev :: "model \<Rightarrow> jsval \<Rightarrow> error + string" where
  "url_prev m count = url_with m (url_prev_params m count)"

definition url_page :: "model \<Rightarrow> jsval \<Rightarrow> jsval \<Rightarrow> error + string" where
  "url_page m pg count = url_with m (url_page_params m pg count)"

section \<open>Emptying, replacing and initialising\<close>

text \<open>\<open>empty()\<close> deletes every own enumerable property of the instance.\<close>

definition empty_op :: "model \<Rightarrow> model" where
  "empty_op m = m\<lparr> items := [], named := [] \<rparr>"

text \<open>\<open>replace(params)\<close>; \<open>None\<close> is an omitted or falsy argument.\<close>

definition replace :: "model \<Rightarrow> jsval props option \<Rightarrow> ret result" where
  "replace m po =
     (let m1 = (case po of Some ps \<Rightarrow> m\<lparr> s_params := ps \<rparr> | None \<Rightarrow> m)
      in as_ret (refetch (empty_op m1)))"

text \<open>\<open>mc._init.promise()\<close>: only a request handle or a deferred has a \<open>promise\<close>
  method.\<close>

definition init_promise :: "model \<Rightarrow> ret result" where
  "init_promise m =
     (case map_of (named m) ''_init'' of
        Some (Xhr i) \<Rightarrow> Returned (RXhr i) m
      | Some Dfd \<Rightarrow> Returned RDfd m
      | _ \<Rightarrow> Thrown TypeError m)"

text \<open>\<open>init(params)\<close>; \<open>Some ps\<close> is a plain object argument, \<open>None\<close> anything else.\<close>

definition init :: "model \<Rightarrow> jsval props option \<Rightarrow> ret result" where
  "init m po =
     (if \<not> slot_truthy (init_ajax m) then
        (let m1 = (case po of Some ps \<Rightarrow> m\<lparr> s_params := jq_extend (s_params m) ps \<rparr> | None \<Rightarrow> m)
         in case refetch m1 of
              Thrown e m2 \<Rightarrow> Thrown e m2
            | Returned i m2 \<Rightarrow>
                init_promise
                  (m2\<lparr> named := set_prop ''_init_ajax'' (Val (JBool True))
                                  (set_prop ''_init'' (Xhr i) (named m2)) \<rparr>))
      else init_promise m)"

text \<open>
  The constructor \<open>Model_Collection(properties)\<close>, run on a fresh instance \<open>m\<close> of
  the class (no own property yet); \<open>None\<close> is an omitted argument, \<open>Some ps\<close> an object
  of record payloads.
\<close>

definition Model_Collection :: "model \<Rightarrow> slot props option \<Rightarrow> unit result" where
  "Model_Collection m props =
     (let m1 = m\<lparr> named := set_prop ''_init'' Dfd
                              (set_prop ''_init_ajax'' (Val (JBool False)) (named m)) \<rparr>
      in if props = None \<and> truthy (s_init m1) \<and> truthy (s_endpoint m1) then
           (case init m1 None of Thrown e m2 \<Rightarrow> Thrown e m2 | Returned _ m2 \<Rightarrow> Returned () m2)
         else if props \<noteq> None then Returned () (CD_Model m1 props)
         else Returned () m1)"

section \<open>Local queries\<close>











section \<open>Vocabulary of the properties\<close>

text \<open>The instance after a call, whether it threw or returned.\<close>

definition state_of :: "'a result \<Rightarrow> model" where
  "state_of r = (case r of Thrown e m \<Rightarrow> m | Returned x m \<Rightarrow> m)"

text \<open>
  A request can be dispatched: the endpoint is a non-empty string and \<open>_last_request\<close>
  holds one of the values the \<open>beforeSend\<close> hook is written for.
\<close>

definition can_send :: "model \<Rightarrow> bool" where
  "can_send m =
     ((case s_endpoint m of JStr e \<Rightarrow> e \<noteq> [] | _ \<Rightarrow> False) \<and>
      (case last_request m of
         Val (JBool b) \<Rightarrow> True | Val JNull \<Rightarrow> True | Xhr i \<Rightarrow> True | _ \<Rightarrow> False))"

text \<open>
  A collection as the constructor leaves it after two seeded records, with the default
  prototype value of \<open>_last_request\<close>.
\<close>

definition demo :: model where
  "demo = \<lparr> items = [Rec [(''id'', JStr ''5''), (''name'', JStr ''ann'')],
                     Rec [(''id'', JNum (Fin 7)), (''name'', JStr ''bob'')]],
            named = [(''_init_ajax'', Val (JBool False)), (''_init'', Dfd),
                     (''length'', Val (JNum (Fin 2)))],
            proto_last_request = Val (JBool False),
            s_endpoint = JStr ''http://api.test/users/'',
            s_params = [(''limit'', JNum (Fin 10)), (''offset'', JNum (Fin 20))],
            s_attribute = ''data'',
            s_init = JBool False,
            net = [] \<rparr>"










text \<open>The instance after a first \<open>init({q: "x"})\<close>.\<close>

definition init_once :: model where
  "init_once = state_of (init demo (Some [(''q'', JStr ''x'')]))"







section \<open>Helper facts\<close>

lemma get_prop_set_prop: "get_prop k (set_prop k v ps) = v"
  by (induction ps) (auto simp: get_prop_def)

lemma get_prop_set_prop_other: "k \<noteq> k' \<Longrightarrow> get_prop k (set_prop k' v ps) = get_prop k ps"
  by (induction ps) (auto simp: get_prop_def)






lemma make_request_params: "s_params (state_of (make_request m meth ep dat)) = s_params m"
  by (auto simp: make_request_def state_of_def Let_def split: jsval.splits sum.splits)

lemma refetch_params: "s_params (state_of (refetch m)) = s_params m"
  using make_request_params [of m "''get''" "build_query (QObj (s_params m)) JUndef" JUndef]
  by (auto simp: refetch_def api_get_def state_of_def split: result.splits)

lemma as_ret_state: "state_of (as_ret r) = state_of r"
  by (auto simp: as_ret_def state_of_def split: result.splits)

lemma beforeSend_ok:
  assumes "can_send m" "last_request m \<noteq> Val (JBool False)"
  shows "\<exists>rs. beforeSend (last_request m) (net m) = Inr rs \<and> length rs = length (net m)"
proof (cases "last_request m")
  case (Val v)
  with assms show ?thesis
    by (cases v) (auto simp: can_send_def)
next
  case (Xhr i)
  then show ?thesis by (simp add: abort_def)
qed (use assms in \<open>auto simp: can_send_def\<close>)

lemma make_request_ok:
  assumes "can_send m"
  shows "\<exists>m'. make_request m meth ep dat = Returned (length (net m)) m'
            \<and> s_params m' = s_params m \<and> items m' = items m
            \<and> length (net m') = Suc (length (net m))
            \<and> r_status (net m' ! length (net m)) = Pending
            \<and> r_method (net m' ! length (net m)) = meth"
proof -
  obtain e where e: "s_endpoint m = JStr e" "e \<noteq> []"
    using assms by (auto simp: can_send_def split: jsval.splits)
  show ?thesis
  proof (cases "last_request m = Val (JBool False)")
    case True
    with e show ?thesis by (simp add: make_request_def Let_def nth_append)
  next
    case False
    from beforeSend_ok [OF assms False] obtain rs where
      "beforeSend (last_request m) (net m) = Inr rs" "length rs = length (net m)" by blast
    with e False show ?thesis by (simp add: make_request_def Let_def nth_append)
  qed
qed

lemma refetch_ok:
  assumes "can_send m"
  shows "\<exists>m'. refetch m = Returned (length (net m)) m'
            \<and> s_params m' = s_params m \<and> items m' = items m
            \<and> length (net m') = Suc (length (net m))
            \<and> r_status (net m' ! length (net m)) = Pending
            \<and> r_refresh (net m' ! length (net m))"
proof -
  obtain m' where h: "make_request m ''get'' (build_query (QObj (s_params m)) JUndef) JUndef
        = Returned (length (net m)) m'"
     "s_params m' = s_params m" "items m' = items m" "length (net m') = Suc (length (net m))"
     "r_status (net m' ! length (net m)) = Pending"
    using make_request_ok [OF assms] by blast
  then show ?thesis by (simp add: refetch_def api_get_def)
qed

lemma last_request_params: "last_request (m\<lparr> s_params := ps \<rparr>) = last_request m"
  by (simp add: last_request_def split: option.splits)

lemma can_send_params: "can_send (m\<lparr> s_params := ps \<rparr>) = can_send m"
  by (simp add: can_send_def last_request_params)

lemma can_send_demo: "can_send demo"
  by (simp add: can_send_def demo_def last_request_def)

section \<open>The request controller fails fast\<close>

text \<open>
  Claim C9.  When \<open>settings.endpoint\<close> is unset (any falsy value: the default empty
  string, \<open>undefined\<close>, \<open>null\<close>), each of the four verbs \<open>get\<close>, \<open>put\<close>, \<open>post\<close> and
  \<open>delete\<close> throws the configuration error synchronously, and the instance at the
  throw is the instance of the call: no request has been handed to the transport.
\<close>

theorem verbs_fail_fast_without_endpoint:
  assumes "\<not> truthy (s_endpoint m)"
  shows "api_get m a seg = Thrown (Throw ''Error: The API Toolset has not been setup correctly.'') m
       \<and> api_put m dat ep = Thrown (Throw ''Error: The API Toolset has not been setup correctly.'') m
       \<and> api_post m dat ep = Thrown (Throw ''Error: The API Toolset has not been setup correctly.'') m
       \<and> api_delete m dat ps = Thrown (Throw ''Error: The API Toolset has not been setup correctly.'') m"
  using assms by (simp add: api_get_def api_put_def api_post_def api_delete_def make_request_def)

theorem verbs_fail_fast_without_endpoint_witness:
  "\<not> truthy (s_endpoint (demo\<lparr> s_endpoint := JStr [] \<rparr>))
   \<and> api_get (demo\<lparr> s_endpoint := JStr [] \<rparr>) (QObj [(''limit'', JNum (Fin 10))]) JUndef
       = Thrown (Throw ''Error: The API Toolset has not been setup correctly.'') (demo\<lparr> s_endpoint := JStr [] \<rparr>)
   \<and> api_put (demo\<lparr> s_endpoint := JStr [] \<rparr>) (JStr ''body'') (JStr ''7'')
       = Thrown (Throw ''Error: The API Toolset has not been setup correctly.'') (demo\<lparr> s_endpoint := JStr [] \<rparr>)
   \<and> api_post (demo\<lparr> s_endpoint := JStr [] \<rparr>) (JStr ''body'') (JStr ''7'')
       = Thrown (Throw ''Error: The API Toolset has not been setup correctly.'') (demo\<lparr> s_endpoint := JStr [] \<rparr>)
   \<and> api_delete (demo\<lparr> s_endpoint := JStr [] \<rparr>) JUndef (JStr ''7'')
       = Thrown (Throw ''Error: The API Toolset has not been setup correctly.'') (demo\<lparr> s_endpoint := JStr [] \<rparr>)
   \<and> net (demo\<lparr> s_endpoint := JStr [] \<rparr>) = []"
proof -
  have h: "\<not> truthy (s_endpoint (demo\<lparr> s_endpoint := JStr [] \<rparr>))" by simp
  show ?thesis
    using h verbs_fail_fast_without_endpoint [OF h, of "QObj [(''limit'', JNum (Fin 10))]" JUndef
        "JStr ''body''" "JStr ''7''" "JStr ''7''"]
      verbs_fail_fast_without_endpoint [OF h, of QUndef JUndef JUndef JUndef "JStr ''7''"]
    by (simp add: demo_def)
qed

section \<open>Pagination arithmetic\<close>





lemma page_state_params:
  "has_prop ''limit'' (s_params m) \<Longrightarrow>
   s_params (state_of (page m pg count)) = page_params (s_params m) pg count"
  using refetch_params [of "m\<lparr> s_params := page_params (s_params m) pg count \<rparr>"]
  by (simp add: page_def as_ret_state)

text \<open>
  Claim C3.  \<open>url_page\<close> resolves \<open>limit\<close> from \<open>count\<close> only to decide whether to
  paginate; the product it stores uses \<open>settings.params.limit\<close>.  With
  \<open>params = {limit: 10, offset: 20}\<close>, \<open>url_page(2, 5)\<close> renders offset 10, while
  \<open>page(2, 5)\<close> sets limit 5 and offset \<open>5 * (2 - 1) = 5\<close>.
\<close>

theorem url_page_ignores_count:
  "url_page_params demo (JNum (Fin 2)) (JNum (Fin 5))
     = Some [(''limit'', JNum (Fin 10)), (''offset'', JNum (Fin 10))]
   \<and> url_page demo (JNum (Fin 2)) (JNum (Fin 5)) = Inr ''http://api.test/users/?limit=10&offset=10''
   \<and> s_params (state_of (page demo (JNum (Fin 2)) (JNum (Fin 5))))
     = [(''limit'', JNum (Fin 5)), (''offset'', JNum (Fin 5))]"
proof -
  have l: "has_prop ''limit'' (s_params demo)" by (simp add: demo_def has_prop_def)
  have a: "url_page_params demo (JNum (Fin 2)) (JNum (Fin 5))
     = Some [(''limit'', JNum (Fin 10)), (''offset'', JNum (Fin 10))]"
    by (simp add: url_page_params_def demo_def js_or_def get_prop_def js_mul_def js_sub_def
        copy_def extend_into_def)
  have u: "url demo (QObj [(''limit'', JNum (Fin 10)), (''offset'', JNum (Fin 10))]) JUndef
           = Inr ''http://api.test/users/?limit=10&offset=10''"
    by code_simp
  have b: "page_params (s_params demo) (JNum (Fin 2)) (JNum (Fin 5))
     = [(''limit'', JNum (Fin 5)), (''offset'', JNum (Fin 5))]"
    by (simp add: page_params_def prepare_def demo_def has_prop_def get_prop_def js_plus_def
        js_mul_def js_sub_def)
  show ?thesis
    using a u b page_state_params [OF l] by (simp add: url_page_def url_with_def)
qed

section \<open>Parameter mutators and the page-one reset\<close>

lemma get_prop_del_prop_other: "k \<noteq> k' \<Longrightarrow> get_prop k (del_prop k' ps) = get_prop k ps"
  by (induction ps) (auto simp: get_prop_def del_prop_def)

lemma reset_and_refetch:
  assumes "can_send m"
  shows "\<exists>m'. as_ret (refetch (m\<lparr> s_params := set_prop ''offset'' (JNum (Fin 0)) ps \<rparr>))
                = Returned (RXhr (length (net m))) m'
            \<and> get_prop ''offset'' (s_params m') = JNum (Fin 0)
            \<and> length (net m') = Suc (length (net m))
            \<and> r_status (net m' ! length (net m)) = Pending
            \<and> r_refresh (net m' ! length (net m))"
proof -
  let ?m = "m\<lparr> s_params := set_prop ''offset'' (JNum (Fin 0)) ps \<rparr>"
  have "can_send ?m" using assms by (simp add: can_send_params)
  from refetch_ok [OF this] obtain m' where
    "refetch ?m = Returned (length (net m)) m'" "s_params m' = s_params ?m"
    "length (net m') = Suc (length (net m))" "r_status (net m' ! length (net m)) = Pending"
    "r_refresh (net m' ! length (net m))"
    by auto
  then show ?thesis by (simp add: as_ret_def get_prop_set_prop)
qed

text \<open>
  Claim C4, as amended.  On an instance that can dispatch a request: \<open>filter\<close> called
  with a field (with or without a value), \<open>sort\<close> called with a value and \<open>search\<close>
  called with a value each leave \<open>settings.params.offset\<close> at 0 and dispatch exactly one
  new pending request whose \<open>done\<close> callback refreshes the store.  \<open>param\<close> only sets
  or deletes its key: it dispatches nothing, and it leaves the offset alone unless the
  key is \<open>offset\<close> itself.
\<close>

theorem mutators_reset_offset_and_refetch:
  assumes "can_send m"
  shows "(field \<noteq> JUndef \<longrightarrow>
            (\<exists>m'. filter_op m field v = Returned (RXhr (length (net m))) m'
                 \<and> get_prop ''offset'' (s_params m') = JNum (Fin 0)
                 \<and> length (net m') = Suc (length (net m))
                 \<and> r_status (net m' ! length (net m)) = Pending
                 \<and> r_refresh (net m' ! length (net m))))
       \<and> (v \<noteq> JUndef \<longrightarrow>
            (\<exists>m'. sort_op m v = Returned (RXhr (length (net m))) m'
                 \<and> get_prop ''offset'' (s_params m') = JNum (Fin 0)
                 \<and> length (net m') = Suc (length (net m))
                 \<and> r_status (net m' ! length (net m)) = Pending
                 \<and> r_refresh (net m' ! length (net m))))
       \<and> (v \<noteq> JUndef \<longrightarrow>
            (\<exists>m'. search m v = Returned (RXhr (length (net m))) m'
                 \<and> get_prop ''offset'' (s_params m') = JNum (Fin 0)
                 \<and> length (net m') = Suc (length (net m))
                 \<and> r_status (net m' ! length (net m)) = Pending
                 \<and> r_refresh (net m' ! length (net m))))
       \<and> net (param m field v) = net m
       \<and> (to_string field \<noteq> ''offset'' \<longrightarrow>
            get_prop ''offset'' (s_params (param m field v)) = get_prop ''offset'' (s_params m))"
proof (intro conjI impI)
  assume "field \<noteq> JUndef"
  then show "\<exists>m'. filter_op m field v = Returned (RXhr (length (net m))) m'
                 \<and> get_prop ''offset'' (s_params m') = JNum (Fin 0)
                 \<and> length (net m') = Suc (length (net m))
                 \<and> r_status (net m' ! length (net m)) = Pending
                 \<and> r_refresh (net m' ! length (net m))"
    using reset_and_refetch [OF assms, of "set_prop (to_string field) v (s_params m)"]
      reset_and_refetch [OF assms, of "del_prop (to_string field) (s_params m)"]
    by (simp add: filter_op_def)
next
  assume "v \<noteq> JUndef"
  then show "\<exists>m'. sort_op m v = Returned (RXhr (length (net m))) m'
                 \<and> get_prop ''offset'' (s_params m') = JNum (Fin 0)
                 \<and> length (net m') = Suc (length (net m))
                 \<and> r_status (net m' ! length (net m)) = Pending
                 \<and> r_refresh (net m' ! length (net m))"
    using reset_and_refetch [OF assms, of "set_prop ''sort'' v (s_params m)"]
    by (simp add: sort_op_def)
next
  assume "v \<noteq> JUndef"
  then show "\<exists>m'. search m v = Returned (RXhr (length (net m))) m'
                 \<and> get_prop ''offset'' (s_params m') = JNum (Fin 0)
                 \<and> length (net m') = Suc (length (net m))
                 \<and> r_status (net m' ! length (net m)) = Pending
                 \<and> r_refresh (net m' ! length (net m))"
    using reset_and_refetch [OF assms, of "set_prop ''q'' v (s_params m)"]
    by (simp add: search_def)
next
  show "net (param m field v) = net m" by (simp add: param_def)
next
  assume "to_string field \<noteq> ''offset''"
  then show "get_prop ''offset'' (s_params (param m field v)) = get_prop ''offset'' (s_params m)"
    by (simp add: param_def get_prop_set_prop_other get_prop_del_prop_other)
qed

text \<open>
  The claim as stated fails for \<open>param\<close>: with offset 20, \<open>param("status", "active")\<close>
  and \<open>param("limit")\<close> both leave the offset at 20 and send no request.
\<close>

theorem param_keeps_offset_and_sends_nothing:
  "s_params (param demo (JStr ''status'') (JStr ''active''))
     = [(''limit'', JNum (Fin 10)), (''offset'', JNum (Fin 20)), (''status'', JStr ''active'')]
   \<and> net (param demo (JStr ''status'') (JStr ''active'')) = []
   \<and> s_params (param demo (JStr ''limit'') JUndef) = [(''offset'', JNum (Fin 20))]
   \<and> net (param demo (JStr ''limit'') JUndef) = []"
  by (simp add: param_def demo_def del_prop_def)

theorem mutators_reset_offset_and_refetch_witness:
  "can_send demo
   \<and> (\<exists>m'. filter_op demo (JStr ''status'') (JStr ''active'') = Returned (RXhr 0) m'
          \<and> get_prop ''offset'' (s_params m') = JNum (Fin 0) \<and> length (net m') = 1)
   \<and> (\<exists>m'. filter_op demo (JStr ''status'') JUndef = Returned (RXhr 0) m'
          \<and> get_prop ''offset'' (s_params m') = JNum (Fin 0) \<and> length (net m') = 1)
   \<and> (\<exists>m'. sort_op demo (JStr ''name'') = Returned (RXhr 0) m'
          \<and> get_prop ''offset'' (s_params m') = JNum (Fin 0) \<and> length (net m') = 1)
   \<and> (\<exists>m'. search demo (JStr ''name'') = Returned (RXhr 0) m'
          \<and> get_prop ''offset'' (s_params m') = JNum (Fin 0) \<and> length (net m') = 1)"
proof -
  have n: "net demo = []" by (simp add: demo_def)
  show ?thesis
    using can_send_demo
      mutators_reset_offset_and_refetch [OF can_send_demo, of "JStr ''status''" "JStr ''active''"]
      mutators_reset_offset_and_refetch [OF can_send_demo, of "JStr ''status''" JUndef]
      mutators_reset_offset_and_refetch [OF can_send_demo, of "JStr ''status''" "JStr ''name''"]
    by (simp add: n) blast
qed

section \<open>Responses and the store\<close>









lemma map_of_set_prop: "map_of (set_prop k v ps) k' = (if k' = k then Some v else map_of ps k')"
  by (induction ps) auto

lemma CD_Model_named:
  assumes "k \<noteq> ''length''"
  shows "map_of (named (CD_Model m po)) k = map_of (named m) k"
proof (cases po)
  case None
  then show ?thesis by simp
next
  case (Some ps)
  have "map_of (named (foldl (\<lambda>acc p. push (CD_Result (snd p)) acc) m ps)) k = map_of (named m) k"
    using assms by (induction ps arbitrary: m) (simp_all add: push_def map_of_set_prop)
  with Some show ?thesis by simp
qed

lemma settle_named:
  assumes "k \<noteq> ''length''"
  shows "map_of (named (settle i out m)) k = map_of (named m) k"
  using CD_Model_named [OF assms]
  by (cases out) (auto simp: settle_def Let_def on_done_def)



section \<open>Failed requests\<close>




section \<open>Initialisation\<close>

lemma init_promise_state: "init_promise m = Returned r m' \<Longrightarrow> m' = m"
  by (auto simp: init_promise_def split: option.splits slot.splits)

lemma init_promise_named:
  "map_of (named m') ''_init'' = map_of (named m) ''_init'' \<Longrightarrow>
   init_promise m = Returned r m \<Longrightarrow> init_promise m' = Returned r m'"
  by (auto simp: init_promise_def split: option.splits slot.splits)

lemma init_ajax_after_init:
  assumes "init m po = Returned r m1"
  shows "slot_truthy (init_ajax m1) \<and> init_promise m1 = Returned r m1"
proof (cases "slot_truthy (init_ajax m)")
  case True
  with assms have p: "init_promise m = Returned r m1" by (simp add: init_def)
  from init_promise_state [OF p] p True show ?thesis by simp
next
  case False
  let ?m = "case po of Some ps \<Rightarrow> m\<lparr> s_params := jq_extend (s_params m) ps \<rparr> | None \<Rightarrow> m"
  from assms False obtain i m2 where
    f: "refetch ?m = Returned i m2"
    and p: "init_promise (m2\<lparr> named := set_prop ''_init_ajax'' (Val (JBool True))
                                  (set_prop ''_init'' (Xhr i) (named m2)) \<rparr>) = Returned r m1"
    by (auto simp: init_def Let_def split: result.splits)
  from init_promise_state [OF p] have e: "m1 = m2\<lparr> named := set_prop ''_init_ajax'' (Val (JBool True))
                                  (set_prop ''_init'' (Xhr i) (named m2)) \<rparr>" .
  have "init_ajax m1 = Val (JBool True)"
    by (simp add: e init_ajax_def map_of_set_prop)
  with p e show ?thesis by simp
qed

lemma init_memo:
  assumes "slot_truthy (init_ajax m)" "init_promise m = Returned r m"
  shows "init m po = Returned r m \<and> init (settle i out m) po = Returned r (settle i out m)"
proof -
  have a: "init_ajax (settle i out m) = init_ajax m"
    using settle_named [of "''_init_ajax''" i out m] by (simp add: init_ajax_def)
  have b: "map_of (named (settle i out m)) ''_init'' = map_of (named m) ''_init''"
    by (rule settle_named) simp
  show ?thesis
    using assms a init_promise_named [OF b assms(2)] by (simp add: init_def)
qed


lemma init_demo:
  "init demo (Some [(''q'', JStr ''x'')]) = Returned (RXhr 0)
     (demo\<lparr> s_params := [(''limit'', JNum (Fin 10)), (''offset'', JNum (Fin 20)), (''q'', JStr ''x'')],
            named := [(''_init_ajax'', Val (JBool True)), (''_init'', Xhr 0),
                      (''length'', Val (JNum (Fin 2)))],
            net := [\<lparr> r_method = ''get'', r_url = ''http://api.test/users/?limit=10&offset=20&q=x'',
                      r_data = None, r_status = Pending, r_refresh = True \<rparr>] \<rparr>)"
  by code_simp



section \<open>Emptying the instance\<close>

lemma make_request_named:
  "k \<noteq> ''_last_request'' \<Longrightarrow>
   map_of (named (state_of (make_request m meth ep dat))) k = map_of (named m) k"
  by (auto simp: make_request_def state_of_def Let_def map_of_set_prop
      split: jsval.splits sum.splits)

lemma refetch_named:
  "k \<noteq> ''_last_request'' \<Longrightarrow> map_of (named (state_of (refetch m))) k = map_of (named m) k"
  using make_request_named [of k m "''get''" "build_query (QObj (s_params m)) JUndef" JUndef]
  by (auto simp: refetch_def api_get_def state_of_def split: result.splits)

lemma init_sets_fields:
  assumes "map_of (named m) ''_init_ajax'' \<noteq> None" "map_of (named m) ''_init'' \<noteq> None"
  shows "map_of (named (state_of (init m po))) ''_init_ajax'' \<noteq> None
       \<and> map_of (named (state_of (init m po))) ''_init'' \<noteq> None"
proof (cases "slot_truthy (init_ajax m)")
  case True
  then show ?thesis
    using assms by (auto simp: init_def init_promise_def state_of_def split: option.splits slot.splits)
next
  case False
  let ?m = "case po of Some ps \<Rightarrow> m\<lparr> s_params := jq_extend (s_params m) ps \<rparr> | None \<Rightarrow> m"
  have nm: "named ?m = named m" by (cases po) simp_all
  show ?thesis
  proof (cases "refetch ?m")
    case (Thrown e m2)
    then have "state_of (init m po) = state_of (refetch ?m)"
      using False by (simp add: init_def Let_def state_of_def)
    then show ?thesis
      using assms nm refetch_named [of "''_init_ajax''" ?m] refetch_named [of "''_init''" ?m]
      by simp
  next
    case (Returned i m2)
    then show ?thesis
      using False
      by (auto simp: init_def Let_def init_promise_def state_of_def map_of_set_prop)
  qed
qed

lemma constructor_sets_fields:
  "map_of (named (state_of (Model_Collection c props))) ''_init_ajax'' \<noteq> None
   \<and> map_of (named (state_of (Model_Collection c props))) ''_init'' \<noteq> None"
proof -
  let ?m1 = "c\<lparr> named := set_prop ''_init'' Dfd
                              (set_prop ''_init_ajax'' (Val (JBool False)) (named c)) \<rparr>"
  have a: "map_of (named ?m1) ''_init_ajax'' \<noteq> None" "map_of (named ?m1) ''_init'' \<noteq> None"
    by (simp_all add: map_of_set_prop)
  have s: "state_of (case init ?m1 None of Thrown e m2 \<Rightarrow> Thrown e m2 | Returned x m2 \<Rightarrow> Returned () m2)
           = state_of (init ?m1 None)"
    by (cases "init ?m1 None") (simp_all add: state_of_def)
  show ?thesis
    using init_sets_fields [OF a, of None] a CD_Model_named [of "''_init_ajax''" ?m1 props]
      CD_Model_named [of "''_init''" ?m1 props] s
    by (auto simp: Model_Collection_def Let_def state_of_def simp del: CD_Model.simps)
qed

lemma last_request_empty: "last_request (empty_op m) = proto_last_request m"
  by (simp add: last_request_def empty_op_def)

lemma init_after_empty:
  assumes "can_send (empty_op m)"
  shows "\<exists>m2. init (empty_op m) po = Returned (RXhr (length (net m))) m2
            \<and> length (net m2) = Suc (length (net m))
            \<and> r_status (net m2 ! length (net m)) = Pending
            \<and> r_refresh (net m2 ! length (net m))"
proof -
  let ?e = "empty_op m"
  let ?m = "case po of Some ps \<Rightarrow> ?e\<lparr> s_params := jq_extend (s_params ?e) ps \<rparr> | None \<Rightarrow> ?e"
  have f: "\<not> slot_truthy (init_ajax ?e)" by (simp add: init_ajax_def empty_op_def)
  have c: "can_send ?m" using assms by (cases po) (simp_all add: can_send_params)
  have n: "net ?m = net m" by (cases po) (simp_all add: empty_op_def)
  from refetch_ok [OF c] obtain m' where
    r: "refetch ?m = Returned (length (net m)) m'" "length (net m') = Suc (length (net m))"
       "r_status (net m' ! length (net m)) = Pending" "r_refresh (net m' ! length (net m))"
    using n by auto
  show ?thesis
    using f r by (simp add: init_def Let_def init_promise_def map_of_set_prop)
qed

text \<open>
  Claim C10.  \<open>empty()\<close> leaves the instance with no own enumerable property at all.
  The constructor \<open>Model_Collection\<close> always leaves \<open>_init_ajax\<close> and \<open>_init\<close> among the
  own properties, and \<open>empty()\<close> removes both.  Hence, where an earlier \<open>init\<close> has
  returned \<open>r\<close> and a further \<open>init\<close> would return the memoised \<open>r\<close> again, an \<open>init\<close>
  called after \<open>empty()\<close> dispatches a fresh pending request (provided one can be sent)
  and returns the new handle.
\<close>

theorem empty_forgets_initialisation:
  "own_values (empty_op m) = []
   \<and> map_of (named (state_of (Model_Collection c props))) ''_init_ajax'' \<noteq> None
   \<and> map_of (named (state_of (Model_Collection c props))) ''_init'' \<noteq> None
   \<and> map_of (named (empty_op m)) ''_init_ajax'' = None
   \<and> map_of (named (empty_op m)) ''_init'' = None
   \<and> (init m0 po = Returned r m \<and> can_send (empty_op m) \<longrightarrow>
        init m po' = Returned r m
        \<and> (\<exists>m2. init (empty_op m) po' = Returned (RXhr (length (net m))) m2
               \<and> length (net m2) = Suc (length (net m))
               \<and> r_status (net m2 ! length (net m)) = Pending
               \<and> r_refresh (net m2 ! length (net m))))"
proof -
  have a: "own_values (empty_op m) = []" "map_of (named (empty_op m)) ''_init_ajax'' = None"
    "map_of (named (empty_op m)) ''_init'' = None"
    by (simp_all add: own_values_def empty_op_def)
  have b: "init m0 po = Returned r m \<Longrightarrow> init m po' = Returned r m"
    using init_ajax_after_init [of m0 po r m] init_memo [of m r po' 0 Failure] by simp
  show ?thesis
    using a b constructor_sets_fields [of c props] init_after_empty [of m po'] by blast
qed


theorem empty_forgets_initialisation_witness:
  "init demo (Some [(''q'', JStr ''x'')]) = Returned (RXhr 0) init_once
   \<and> can_send (empty_op init_once)
   \<and> init init_once None = Returned (RXhr 0) init_once
   \<and> (\<exists>m2. init (empty_op init_once) None = Returned (RXhr 1) m2 \<and> length (net m2) = 2
          \<and> r_status (net m2 ! 1) = Pending)"
proof -
  have h: "init demo (Some [(''q'', JStr ''x'')]) = Returned (RXhr 0) init_once"
    by (simp add: init_once_def init_demo state_of_def)
  have n: "length (net init_once) = 1"
    by (simp add: init_once_def init_demo state_of_def)
  have e: "s_endpoint (empty_op init_once) = JStr ''http://api.test/users/''"
    "proto_last_request init_once = Val (JBool False)"
    by (simp_all add: init_once_def init_demo state_of_def empty_op_def) (simp_all add: demo_def)
  have c: "can_send (empty_op init_once)"
    by (simp add: can_send_def last_request_empty e)
  show ?thesis
    using h c n
      empty_forgets_initialisation [of init_once demo None demo "Some [(''q'', JStr ''x'')]"
        "RXhr 0" None]
    by (simp add: numeral_2_eq_2) blast
qed

section \<open>Superseding a pending request\<close>














section \<open>Looking a record up by id\<close>


















section \<open>Matching records against a where-object\<close>














end
